theory Spec2Isabelle
  imports Main "HOL-Library.Sublist" "HOL-Library.Word"
begin

section \<open>Python values, exceptions and text formatting\<close>

text \<open>
  The adapter of \<^verbatim>\<open>src/tockloader/openocd.py\<close> is dynamically typed: a field of the
  board object holds \<^verbatim>\<open>None\<close>, a string or an integer, and the code tests such
  fields for truth, compares them with \<^verbatim>\<open>==\<close> and substitutes them into command
  templates. \<open>pyval\<close> is that universe. Integers are Python's unbounded ones.
\<close>

datatype pyval = PyNone | PyInt int | PyStr string

text \<open>
  Every way the code leaves a function without a result is a value of \<open>exn\<close>. The
  adapter itself raises only \<^verbatim>\<open>TockLoaderException\<close>, told apart by its message; the
  other constructors are the built-in exceptions of the library calls it makes.
\<close>

datatype exn =
    TockLoaderException string
  | KeyError string
  | ValueError
  | TypeError
  | UnicodeDecodeError
  | OtherError string

abbreviation BoardConfigNotFound :: exn where
  "BoardConfigNotFound \<equiv> TockLoaderException
     ''ERROR: Cannot find the board configuration file. You may need to update OpenOCD to the version in latest git master.''"

abbreviation ExternalToolFailure :: exn where
  "ExternalToolFailure \<equiv> TockLoaderException ''openocd error''"

abbreviation HardwareNotConnected :: exn where
  "HardwareNotConnected \<equiv> TockLoaderException ''ERROR: Cannot find hardware. Is USB attached?''"

abbreviation BoardUndetermined :: exn where
  "BoardUndetermined \<equiv> TockLoaderException
     ''Could not determine the current board or arch or openocd board name''"

type_synonym byte = "8 word"
type_synonym bytes = "byte list"
type_synonym kwargs = "(string \<times> pyval) list"

text \<open>Truth of a value in an \<^verbatim>\<open>if\<close>: \<^verbatim>\<open>None\<close>, \<^verbatim>\<open>0\<close> and the empty string are false.\<close>

fun truthy :: "pyval \<Rightarrow> bool" where
  "truthy PyNone = False"
| "truthy (PyInt i) = (i \<noteq> 0)"
| "truthy (PyStr s) = (s \<noteq> [])"

definition truthy_bytes :: "bytes option \<Rightarrow> bool" where
  "truthy_bytes b = (case b of None \<Rightarrow> False | Some bs \<Rightarrow> bs \<noteq> [])"

text \<open>\<^verbatim>\<open>x > 0\<close>: defined between integers, a \<^verbatim>\<open>TypeError\<close> for a string or \<^verbatim>\<open>None\<close>.\<close>

fun py_gt_zero :: "pyval \<Rightarrow> exn + bool" where
  "py_gt_zero (PyInt i) = Inr (0 < i)"
| "py_gt_zero PyNone = Inl TypeError"
| "py_gt_zero (PyStr s) = Inl TypeError"

text \<open>\<^verbatim>\<open>xs[0:n]\<close>: a negative bound counts from the end.\<close>

definition py_slice_upto :: "'a list \<Rightarrow> int \<Rightarrow> 'a list" where
  "py_slice_upto xs n =
     (if 0 \<le> n then take (nat n) xs else take (nat (int (length xs) + n)) xs)"

subsection \<open>Rendering integers\<close>

definition digit_char :: "nat \<Rightarrow> char" where
  "digit_char d = ''0123456789abcdef'' ! d"

fun str_nat :: "nat \<Rightarrow> string" where
  "str_nat n = (if n < 10 then [digit_char n] else str_nat (n div 10) @ [digit_char (n mod 10)])"

fun hex_nat :: "nat \<Rightarrow> string" where
  "hex_nat n = (if n < 16 then [digit_char n] else hex_nat (n div 16) @ [digit_char (n mod 16)])"

declare str_nat.simps [simp del] hex_nat.simps [simp del]

text \<open>\<^verbatim>\<open>str(i)\<close>, and \<^verbatim>\<open>format(i, '#x')\<close>: the sign, \<^verbatim>\<open>0x\<close>, lower-case digits.\<close>

definition str_int :: "int \<Rightarrow> string" where
  "str_int i = (if i < 0 then ''-'' @ str_nat (nat (- i)) else str_nat (nat i))"

definition format_alt_hex :: "int \<Rightarrow> string" where
  "format_alt_hex i = (if i < 0 then ''-'' else []) @ ''0x'' @ hex_nat (nat \<bar>i\<bar>)"

fun py_str :: "pyval \<Rightarrow> string" where
  "py_str PyNone = ''None''"
| "py_str (PyInt i) = str_int i"
| "py_str (PyStr s) = s"

text \<open>The value a string of hexadecimal digits denotes; it gives \<open>hex_nat\<close> its meaning.\<close>

definition hex_digit_value :: "char \<Rightarrow> nat" where
  "hex_digit_value c = (if c \<in> set ''0123456789'' then of_char c - 48 else of_char c - 87)"

definition hex_value :: "string \<Rightarrow> nat" where
  "hex_value s = foldl (\<lambda>acc c. 16 * acc + hex_digit_value c) 0 s"

subsection \<open>\<^verbatim>\<open>str.format\<close> with keyword arguments\<close>

text \<open>
  \<^verbatim>\<open>template.format(k1=v1, ...)\<close> reads the template from the left: \<^verbatim>\<open>{{\<close> and \<^verbatim>\<open>}}\<close>
  are literal braces, a lone \<^verbatim>\<open>}\<close> or an unclosed \<^verbatim>\<open>{\<close> is a \<^verbatim>\<open>ValueError\<close>, and
  \<^verbatim>\<open>{name}\<close> or \<^verbatim>\<open>{name:spec}\<close> is replaced by the named argument, a \<^verbatim>\<open>KeyError\<close> when
  there is none. The model renders the fields this adapter's own templates use: an
  empty format specification (\<^verbatim>\<open>str\<close> of the value) and \<^verbatim>\<open>#x\<close> on an integer. A
  field beyond that (attribute or index access, a conversion, a nested field, a
  positional field, any other specification) can only come from a configured command
  override; from there on the result is what the parameter \<open>other\<close> says, applied to the
  rest of the template, so that every statement below holds whatever Python does with it.
\<close>

fun split_at :: "char \<Rightarrow> string \<Rightarrow> (string \<times> string) option" where
  "split_at d [] = None"
| "split_at d (c # cs) =
     (if c = d then Some ([], cs)
      else (case split_at d cs of None \<Rightarrow> None | Some (a, b) \<Rightarrow> Some (c # a, b)))"

definition is_digit :: "char \<Rightarrow> bool" where
  "is_digit c = (c \<in> set ''0123456789'')"

datatype rendered = Text string | Raise exn | Other

definition format_value :: "pyval \<Rightarrow> string \<Rightarrow> rendered" where
  "format_value v spec =
     (if spec = [] then Text (py_str v)
      else (case v of
              PyInt i \<Rightarrow> if spec = ''#x'' then Text (format_alt_hex i) else Other
            | _ \<Rightarrow> Other))"

definition render_field :: "kwargs \<Rightarrow> string \<Rightarrow> rendered" where
  "render_field kw body =
     (if \<exists>c \<in> set body. c \<in> set ''{[.!'' then Other
      else
        (let (name, spec) = (case split_at CHR '':'' body of None \<Rightarrow> (body, []) | Some p \<Rightarrow> p)
         in case map_of kw name of
              None \<Rightarrow> if list_all is_digit name then Other else Raise (KeyError name)
            | Some v \<Rightarrow> format_value v spec))"

function py_format :: "(string \<Rightarrow> kwargs \<Rightarrow> exn + string) \<Rightarrow> kwargs \<Rightarrow> string \<Rightarrow> exn + string" where
  "py_format other kw [] = Inr []"
| "py_format other kw (c # cs) =
     (if c = CHR ''}'' then
        (case cs of
           [] \<Rightarrow> Inl ValueError
         | d # ds \<Rightarrow>
             if d = CHR ''}'' then map_sum id ((#) c) (py_format other kw ds)
             else Inl ValueError)
      else if c = CHR ''{'' then
        (case cs of
           [] \<Rightarrow> Inl ValueError
         | d # ds \<Rightarrow>
             if d = CHR ''{'' then map_sum id ((#) c) (py_format other kw ds)
             else
               (case split_at CHR ''}'' cs of
                  None \<Rightarrow> Inl ValueError
                | Some (body, rest) \<Rightarrow>
                    (case render_field kw body of
                       Other \<Rightarrow> other (c # cs) kw
                     | Raise e \<Rightarrow> Inl e
                     | Text t \<Rightarrow> map_sum id ((@) t) (py_format other kw rest))))
      else map_sum id ((#) c) (py_format other kw cs))"
  by pat_completeness auto
termination
proof (relation "measure (\<lambda>(other, kw, s). length s)")
  have split_shorter: "split_at d cs = Some (a, b) \<Longrightarrow> length b < length cs" for d cs a b
    by (induction cs arbitrary: a) (auto split: if_splits option.splits)
  fix other :: "string \<Rightarrow> kwargs \<Rightarrow> exn + string" and kw :: kwargs and c :: char and cs :: string
    and d ds x2 body rest x3
  assume "cs = d # ds" "split_at CHR ''}'' cs = Some x2" "(body, rest) = x2"
  then show "((other, kw, rest), other, kw, c # cs) \<in> measure (\<lambda>(other, kw, s). length s)"
    using split_shorter [of "CHR ''}''" cs body rest] by simp
qed auto

subsection \<open>\<^verbatim>\<open>bytes.decode('utf-8')\<close>\<close>

text \<open>
  The strict decoder accepts exactly the well-formed byte sequences of UTF-8 (no stray
  continuation byte, no truncated or overlong sequence, no surrogate, nothing above
  \<^verbatim>\<open>U+10FFFF\<close>) and raises \<^verbatim>\<open>UnicodeDecodeError\<close> on any other. Text is held in a
  \<open>string\<close> as its UTF-8 encoding, one \<open>char\<close> for each byte, so decoding a well-formed
  sequence keeps the bytes as they are. Joining texts joins their encodings, and an ASCII
  text occurs in a text exactly where its bytes occur in the encoding, since no byte
  below \<^verbatim>\<open>0x80\<close> is part of a longer sequence.
\<close>

definition continuation :: "nat \<Rightarrow> bool" where
  "continuation b = (0x80 \<le> b \<and> b \<le> 0xBF)"

fun well_formed_utf8 :: "nat list \<Rightarrow> bool" where
  "well_formed_utf8 [] = True"
| "well_formed_utf8 (a # rest) =
     (if a < 0x80 then well_formed_utf8 rest
      else if 0xC2 \<le> a \<and> a \<le> 0xDF then
        (case rest of
           b # r \<Rightarrow> continuation b \<and> well_formed_utf8 r
         | _ \<Rightarrow> False)
      else if 0xE0 \<le> a \<and> a \<le> 0xEF then
        (case rest of
           b # c # r \<Rightarrow>
             (if a = 0xE0 then 0xA0 \<le> b \<and> b \<le> 0xBF
              else if a = 0xED then 0x80 \<le> b \<and> b \<le> 0x9F
              else continuation b)
             \<and> continuation c \<and> well_formed_utf8 r
         | _ \<Rightarrow> False)
      else if 0xF0 \<le> a \<and> a \<le> 0xF4 then
        (case rest of
           b # c # d # r \<Rightarrow>
             (if a = 0xF0 then 0x90 \<le> b \<and> b \<le> 0xBF
              else if a = 0xF4 then 0x80 \<le> b \<and> b \<le> 0x8F
              else continuation b)
             \<and> continuation c \<and> continuation d \<and> well_formed_utf8 r
         | _ \<Rightarrow> False)
      else False)"

definition decode_utf8 :: "bytes \<Rightarrow> exn + string" where
  "decode_utf8 bs =
     (if well_formed_utf8 (map unat bs) then Inr (map (\<lambda>b. char_of (unat b)) bs)
      else Inl UnicodeDecodeError)"

section \<open>The world around the adapter\<close>

text \<open>
  A staging file as \<^verbatim>\<open>tempfile.NamedTemporaryFile\<close> creates it: the name it was given,
  the bytes written to it, and whether closing it deletes it.
\<close>

record temp_file =
  tf_name :: string
  tf_content :: bytes
  tf_delete :: bool

text \<open>
  What \<^verbatim>\<open>subprocess.run\<close> returns: the exit status and the two captured streams, as
  the bytes the child wrote.
\<close>

record completed_process =
  returncode :: int
  stdout :: bytes
  stderr :: bytes

text \<open>
  One call of \<^verbatim>\<open>subprocess.run(shlex.split(command), ...)\<close>: either an exception (the
  command does not split, the program is not installed), or the completed process
  together with the bytes a read through the open staging file yields afterwards.
\<close>

datatype tool_result = Raised exn | Completed completed_process bytes

text \<open>
  The effects a caller can observe: the staging files created, the module's global list
  \<^verbatim>\<open>collect_temp_files\<close>, the command lines handed to the external tool (each with the
  staging file open at that moment, if any), and how many times the device was asked for
  its attributes. Console output is not recorded.
\<close>

record world =
  temp_files :: "temp_file list"
  collect_temp_files :: "string list"
  invocations :: "(string \<times> temp_file option) list"
  attribute_queries :: nat

record attribute =
  attr_key :: string
  attr_value :: pyval

text \<open>
  Modelled from the spec: an entry of the catalog \<^verbatim>\<open>KNOWN_BOARDS\<close>, which lives in
  \<^verbatim>\<open>board_interface.py\<close>. The keys \<^verbatim>\<open>arch\<close>, \<^verbatim>\<open>openocd\<close> and \<^verbatim>\<open>page_size\<close> are always
  there, the other three may be missing.
\<close>

record known_board =
  kb_arch :: pyval
  kb_openocd :: pyval
  kb_page_size :: pyval
  kb_openocd_options :: "string list option"
  kb_openocd_prefix :: "pyval option"
  kb_openocd_commands :: "(string \<rightharpoonup> string) option"

text \<open>
  Everything the adapter takes from outside, as parameters: the platform, the name the
  next temporary file gets, the external tool, Python's treatment of format fields the
  model does not render, and (modelled from the spec, both from \<^verbatim>\<open>board_interface.py\<close>)
  the catalog and the collaborator \<^verbatim>\<open>get_all_attributes\<close>, which yields an ordered list
  of records, \<^verbatim>\<open>None\<close> for an absent one, or raises.
\<close>

record env =
  windows :: bool
  fresh_name :: "world \<Rightarrow> string"
  tool :: "string \<Rightarrow> temp_file option \<Rightarrow> tool_result"
  format_other :: "string \<Rightarrow> kwargs \<Rightarrow> exn + string"
  KNOWN_BOARDS :: "string \<rightharpoonup> known_board"
  get_all_attributes :: "exn + attribute option list"

text \<open>The fields of \<^verbatim>\<open>self\<close> the adapter reads and writes (\<open>debug\<close> is \<^verbatim>\<open>self.args.debug\<close>).\<close>

record board_interface =
  debug :: bool
  board :: pyval
  arch :: pyval
  openocd_board :: pyval
  openocd_options :: "string list"
  openocd_prefix :: pyval
  openocd_commands :: "string \<rightharpoonup> string"
  page_size :: pyval

section \<open>The command line and the process runner\<close>

text \<open>\<^verbatim>\<open>name.replace('\\', '\\\\\\')\<close>: every backslash becomes three.\<close>

definition escape_backslashes :: "string \<Rightarrow> string" where
  "escape_backslashes name = concat (map (\<lambda>c. if c = CHR 0x5C then [c, c, c] else [c]) name)"

text \<open>The four clauses around the operation's command, defaults first, then the customisations in the order of the source.\<close>

definition prefix_clause :: "board_interface \<Rightarrow> pyval" where
  "prefix_clause self =
     (let prefix = PyStr [];
          prefix = (if ''workareazero'' \<in> set (openocd_options self)
                    then PyStr ''set WORKAREASIZE 0;'' else prefix);
          prefix = (if truthy (openocd_prefix self) then openocd_prefix self else prefix)
      in prefix)"

definition source_clause :: "env \<Rightarrow> board_interface \<Rightarrow> exn + string" where
  "source_clause env self =
     (case py_format (format_other env) [(''board'', openocd_board self)]
             ''source [find board/{board}];'' of
        Inl e \<Rightarrow> Inl e
      | Inr source \<Rightarrow> Inr (if openocd_board self = PyNone then [] else source))"

definition cmd_prefix_clause :: "board_interface \<Rightarrow> string" where
  "cmd_prefix_clause self =
     (let cmd_prefix = ''init; reset init; halt;'';
          cmd_prefix = (if ''noreset'' \<in> set (openocd_options self)
                        then ''init; halt;'' else cmd_prefix);
          cmd_prefix = (if ''nocmdprefix'' \<in> set (openocd_options self) then [] else cmd_prefix)
      in cmd_prefix)"

definition cmd_suffix_clause :: "board_interface \<Rightarrow> string" where
  "cmd_suffix_clause self =
     (if ''resume'' \<in> set (openocd_options self) then ''soft_reset_halt; resume;'' else [])"

definition openocd_command :: "env \<Rightarrow> board_interface \<Rightarrow> string \<Rightarrow> exn + string" where
  "openocd_command env self commands =
     (case source_clause env self of
        Inl e \<Rightarrow> Inl e
      | Inr source \<Rightarrow>
          py_format (format_other env)
            [(''prefix'', prefix_clause self), (''source'', PyStr source),
             (''cmd_prefix'', PyStr (cmd_prefix_clause self)), (''cmd'', PyStr commands),
             (''cmd_suffix'', PyStr (cmd_suffix_clause self))]
            ''openocd -c \"{prefix} {source} {cmd_prefix} {cmd} {cmd_suffix} exit\"'')"

text \<open>
  The local function \<^verbatim>\<open>print_output\<close>: each stream that is not empty is decoded and
  appended, and a stream that does not decode raises.
\<close>

definition print_output :: "completed_process \<Rightarrow> exn + string" where
  "print_output subp =
     (let response = [] in
      case (if stdout subp \<noteq> []
            then (case decode_utf8 (stdout subp) of
                    Inl e \<Rightarrow> Inl e | Inr text \<Rightarrow> Inr (response @ text))
            else Inr response) of
        Inl e \<Rightarrow> Inl e
      | Inr response \<Rightarrow>
          (if stderr subp \<noteq> []
           then (case decode_utf8 (stderr subp) of
                   Inl e \<Rightarrow> Inl e | Inr text \<Rightarrow> Inr (response @ text))
           else Inr response))"

text \<open>
  The last part of \<^verbatim>\<open>_run_openocd_commands\<close>, from the test of the exit status on. A
  non-zero status prints the output and raises; a zero status prints the output only in
  debug mode. Then the standard output is decoded and searched for the J-Link message,
  and a read returns the bytes of the staging file.
\<close>

definition process_outcome ::
  "board_interface \<Rightarrow> bool \<Rightarrow> completed_process \<Rightarrow> bytes \<Rightarrow> exn + bytes option" where
  "process_outcome self write p content =
     (case (if returncode p \<noteq> 0 then
              (case print_output p of
                 Inl e \<Rightarrow> Inl e
               | Inr out \<Rightarrow>
                   if sublist ''Can't find board/'' out then Inl BoardConfigNotFound
                   else Inl ExternalToolFailure)
            else if debug self then
              (case print_output p of Inl e \<Rightarrow> Inl e | Inr out \<Rightarrow> Inr ())
            else Inr ()) of
        Inl e \<Rightarrow> Inl e
      | Inr u \<Rightarrow>
          (case decode_utf8 (stdout p) of
             Inl e \<Rightarrow> Inl e
           | Inr stdout_text \<Rightarrow>
               if sublist ''Error: No J-Link device found.'' stdout_text
               then Inl HardwareNotConnected
               else if \<not> write then Inr (Some content)
               else Inr None))"

text \<open>
  The first part of \<^verbatim>\<open>_run_openocd_commands\<close>: when there is something to write, or the
  operation is a read, create the temporary file, fill it, record its name on Windows,
  and substitute the name for \<^verbatim>\<open>{binary}\<close>. Otherwise the command is left as it is.
\<close>

definition stage_binary ::
  "env \<Rightarrow> board_interface \<Rightarrow> string \<Rightarrow> bytes option \<Rightarrow> bool \<Rightarrow> world
     \<Rightarrow> (exn + string \<times> temp_file option) \<times> world" where
  "stage_binary env self commands binary write w =
     (let delete = (\<not> windows env);
          delete = (if debug self then False else delete)
      in
      if truthy_bytes binary \<or> \<not> write then
        (let name = fresh_name env w;
             content = (if write then (case binary of Some bs \<Rightarrow> bs | None \<Rightarrow> []) else []);
             temp_bin = \<lparr>tf_name = name, tf_content = content, tf_delete = delete\<rparr>;
             w = w\<lparr>temp_files := temp_files w @ [temp_bin]\<rparr>;
             name = (if windows env then escape_backslashes name else name);
             w = (if windows env then w\<lparr>collect_temp_files := collect_temp_files w @ [name]\<rparr>
                  else w)
         in case py_format (format_other env) [(''binary'', PyStr name)] commands of
              Inl e \<Rightarrow> (Inl e, w)
            | Inr commands \<Rightarrow> (Inr (commands, Some temp_bin), w))
      else (Inr (commands, None), w))"

text \<open>
  \<^verbatim>\<open>_run_openocd_commands(commands, binary, write)\<close>. The result is \<^verbatim>\<open>None\<close> for a
  write and the bytes read back from the staging file for a read.
\<close>

definition run_openocd_commands ::
  "env \<Rightarrow> board_interface \<Rightarrow> string \<Rightarrow> bytes option \<Rightarrow> bool \<Rightarrow> world
     \<Rightarrow> (exn + bytes option) \<times> world" where
  "run_openocd_commands env self commands binary write w =
     (case stage_binary env self commands binary write w of
        (Inl e, w) \<Rightarrow> (Inl e, w)
      | (Inr (commands, temp_bin), w) \<Rightarrow>
          (case openocd_command env self commands of
             Inl e \<Rightarrow> (Inl e, w)
           | Inr command \<Rightarrow>
               (let w = w\<lparr>invocations := invocations w @ [(command, temp_bin)]\<rparr> in
                case tool env command temp_bin of
                  Raised e \<Rightarrow> (Inl e, w)
                | Completed p content \<Rightarrow> (process_outcome self write p content, w))))"

section \<open>Flash operations\<close>

definition flash_binary ::
  "env \<Rightarrow> board_interface \<Rightarrow> int \<Rightarrow> bytes \<Rightarrow> world \<Rightarrow> (exn + unit) \<times> world" where
  "flash_binary env self address binary w =
     (let command = ''program {{binary}} verify {address:#x};'';
          command = (case openocd_commands self ''program'' of
                       Some c \<Rightarrow> c | None \<Rightarrow> command)
      in case py_format (format_other env) [(''address'', PyInt address)] command of
           Inl e \<Rightarrow> (Inl e, w)
         | Inr command \<Rightarrow>
             (case run_openocd_commands env self command (Some binary) True w of
                (Inl e, w) \<Rightarrow> (Inl e, w)
              | (Inr r, w) \<Rightarrow> (Inr (), w)))"

definition read_range ::
  "env \<Rightarrow> board_interface \<Rightarrow> int \<Rightarrow> int \<Rightarrow> world \<Rightarrow> (exn + bytes) \<times> world" where
  "read_range env self address len w =
     (let command = ''dump_image {{binary}} {address:#x} {length};'';
          command = (case openocd_commands self ''read'' of
                       Some c \<Rightarrow> c | None \<Rightarrow> command)
      in case py_format (format_other env)
                [(''address'', PyInt address), (''length'', PyInt len)] command of
           Inl e \<Rightarrow> (Inl e, w)
         | Inr command \<Rightarrow>
             (case run_openocd_commands env self command None False w of
                (Inl e, w) \<Rightarrow> (Inl e, w)
              | (Inr result, w) \<Rightarrow>
                  (let read = [];
                       read = (if truthy_bytes result
                               then read @ (case result of Some bs \<Rightarrow> bs | None \<Rightarrow> [])
                               else read);
                       read = (if int (length read) > len then py_slice_upto read len else read)
                   in (Inr read, w))))"

definition erase_page ::
  "env \<Rightarrow> board_interface \<Rightarrow> int \<Rightarrow> world \<Rightarrow> (exn + unit) \<times> world" where
  "erase_page env self address w =
     (case py_format (format_other env) [(''address'', PyInt address)]
             ''flash fillb {address:#x} 0xff 512;'' of
        Inl e \<Rightarrow> (Inl e, w)
      | Inr command \<Rightarrow>
          (let command = (case openocd_commands self ''erase'' of
                            Some c \<Rightarrow> c | None \<Rightarrow> command)
           in case py_format (format_other env) [(''address'', PyInt address)] command of
                Inl e \<Rightarrow> (Inl e, w)
              | Inr command \<Rightarrow>
                  (case run_openocd_commands env self command None True w of
                     (Inl e, w) \<Rightarrow> (Inl e, w)
                   | (Inr r, w) \<Rightarrow> (Inr (), w))))"

section \<open>The board resolver\<close>

text \<open>
  The first test of \<^verbatim>\<open>determine_current_board\<close>; \<^verbatim>\<open>and\<close> stops at the first false
  operand. The second test, \<^verbatim>\<open>self.board and self.board in self.KNOWN_BOARDS\<close>, and the
  lookup that follows it are one function: the entry of the catalog, if the board has one.
\<close>

definition already_set :: "board_interface \<Rightarrow> exn + bool" where
  "already_set self =
     (if truthy (board self) \<and> truthy (arch self) \<and> truthy (openocd_board self)
      then py_gt_zero (page_size self) else Inr False)"

definition lookup_known_board :: "env \<Rightarrow> board_interface \<Rightarrow> known_board option" where
  "lookup_known_board env self =
     (if truthy (board self)
      then (case board self of PyStr b \<Rightarrow> KNOWN_BOARDS env b | _ \<Rightarrow> None)
      else None)"

definition use_known_board :: "board_interface \<Rightarrow> known_board \<Rightarrow> board_interface" where
  "use_known_board self kb =
     (let self = self\<lparr>arch := kb_arch kb\<rparr>;
          self = self\<lparr>openocd_board := kb_openocd kb\<rparr>;
          self = (case kb_openocd_options kb of
                    Some v \<Rightarrow> self\<lparr>openocd_options := v\<rparr> | None \<Rightarrow> self);
          self = (case kb_openocd_prefix kb of
                    Some v \<Rightarrow> self\<lparr>openocd_prefix := v\<rparr> | None \<Rightarrow> self);
          self = (case kb_openocd_commands kb of
                    Some v \<Rightarrow> self\<lparr>openocd_commands := v\<rparr> | None \<Rightarrow> self)
      in self\<lparr>page_size := kb_page_size kb\<rparr>)"

text \<open>One turn of the loop over the attributes: four tests in a row, each on the object as the one before left it.\<close>

definition scan_attribute :: "board_interface \<Rightarrow> attribute option \<Rightarrow> board_interface" where
  "scan_attribute self attribute =
     (case attribute of
        None \<Rightarrow> self
      | Some a \<Rightarrow>
          (let self = (if attr_key a = ''board'' \<and> board self = PyNone
                       then self\<lparr>board := attr_value a\<rparr> else self);
               self = (if attr_key a = ''arch'' \<and> arch self = PyNone
                       then self\<lparr>arch := attr_value a\<rparr> else self);
               self = (if attr_key a = ''openocd''
                       then self\<lparr>openocd_board := attr_value a\<rparr> else self);
               self = (if attr_key a = ''pagesize'' \<and> page_size self = PyInt 0
                       then self\<lparr>page_size := attr_value a\<rparr> else self)
           in self))"

definition scan_attributes :: "board_interface \<Rightarrow> attribute option list \<Rightarrow> board_interface" where
  "scan_attributes self attributes = foldl scan_attribute self attributes"

definition check_learned :: "board_interface \<Rightarrow> exn + unit" where
  "check_learned self =
     (if board self = PyNone \<or> arch self = PyNone
         \<or> openocd_board self = PyStr ''cortex-m0'' \<or> page_size self = PyInt 0
      then Inl BoardUndetermined else Inr ())"

definition determine_current_board ::
  "env \<Rightarrow> board_interface \<Rightarrow> world \<Rightarrow> (exn + unit) \<times> board_interface \<times> world" where
  "determine_current_board env self w =
     (case already_set self of
        Inl e \<Rightarrow> (Inl e, self, w)
      | Inr True \<Rightarrow> (Inr (), self, w)
      | Inr False \<Rightarrow>
          (case lookup_known_board env self of
             Some kb \<Rightarrow> (Inr (), use_known_board self kb, w)
           | None \<Rightarrow>
            (let w = w\<lparr>attribute_queries := Suc (attribute_queries w)\<rparr> in
             case get_all_attributes env of
               Inl e \<Rightarrow> (Inl e, self, w)
             | Inr attributes \<Rightarrow>
                 (let self = scan_attributes self attributes
                  in (check_learned self, self, w)))))"


section \<open>A concrete board, catalog and tool\<close>

text \<open>
  The configuration of the spec's example: the caller names the board \<^verbatim>\<open>hail\<close> and
  nothing else, and the catalog knows it. The tool of \<open>demo_env r\<close> answers every command
  line with \<open>r\<close>.
\<close>

definition hail_entry :: known_board where
  "hail_entry =
     \<lparr>kb_arch = PyStr ''cortex-m4'', kb_openocd = PyStr ''hail.cfg'', kb_page_size = PyInt 512,
      kb_openocd_options = None, kb_openocd_prefix = None, kb_openocd_commands = None\<rparr>"

definition demo_env :: "tool_result \<Rightarrow> env" where
  "demo_env r =
     \<lparr>windows = False, fresh_name = (\<lambda>w. ''/tmp/tmp0.bin''), tool = (\<lambda>command temp_bin. r),
      format_other = (\<lambda>s kw. Inl ValueError), KNOWN_BOARDS = [''hail'' \<mapsto> hail_entry],
      get_all_attributes = Inr []\<rparr>"

definition demo_board :: board_interface where
  "demo_board =
     \<lparr>debug = False, board = PyStr ''hail'', arch = PyNone, openocd_board = PyNone,
      openocd_options = [], openocd_prefix = PyNone, openocd_commands = Map.empty,
      page_size = PyInt 0\<rparr>"

definition demo_world :: world where
  "demo_world = \<lparr>temp_files = [], collect_temp_files = [], invocations = [], attribute_queries = 0\<rparr>"


definition pagesize_record :: "pyval \<Rightarrow> attribute option" where
  "pagesize_record v = Some \<lparr>attr_key = ''pagesize'', attr_value = v\<rparr>"

text \<open>A caller who has configured everything, with values that differ from the catalog's.\<close>

definition preset_board :: board_interface where
  "preset_board =
     demo_board\<lparr>arch := PyStr ''cortex-m0'', openocd_board := PyStr ''custom.cfg'',
                page_size := PyInt 1024\<rparr>"

text \<open>A device that describes itself through its attributes, with one absent record.\<close>

definition demo_attributes :: "string \<Rightarrow> attribute option list" where
  "demo_attributes name =
     [Some \<lparr>attr_key = ''board'', attr_value = PyStr ''imix''\<rparr>,
      None,
      Some \<lparr>attr_key = ''arch'', attr_value = PyStr ''cortex-m4''\<rparr>,
      Some \<lparr>attr_key = ''openocd'', attr_value = PyStr name\<rparr>,
      Some \<lparr>attr_key = ''pagesize'', attr_value = PyInt 512\<rparr>]"

lemmas demo_defs = demo_env_def demo_board_def demo_world_def hail_entry_def

section \<open>Facts about formatting\<close>

lemma py_format_plain:
  "CHR ''{'' \<notin> set s \<Longrightarrow> CHR ''}'' \<notin> set s \<Longrightarrow> py_format other kw s = Inr s"
  by (induction s) auto

lemma digit_char_plain: "d < 16 \<Longrightarrow> digit_char d \<in> set ''0123456789abcdef''"
  unfolding digit_char_def by (rule nth_mem) simp

lemma hex_nat_digits: "set (hex_nat n) \<subseteq> set ''0123456789abcdef''"
proof (induction n rule: hex_nat.induct)
  case (1 n)
  show ?case
  proof (cases "n < 16")
    case True
    then show ?thesis using digit_char_plain [of n] by (subst hex_nat.simps) simp
  next
    case False
    then show ?thesis using 1 digit_char_plain [of "n mod 16"]
      by (subst hex_nat.simps) simp
  qed
qed

lemma format_alt_hex_plain:
  "CHR ''{'' \<notin> set (format_alt_hex i)" "CHR ''}'' \<notin> set (format_alt_hex i)"
  using hex_nat_digits [of "nat \<bar>i\<bar>"] by (auto simp: format_alt_hex_def)

lemma hex_digit_value_digit_char: "d < 16 \<Longrightarrow> hex_digit_value (digit_char d) = d"
proof -
  assume "d < 16"
  then have "d \<in> set [0 ..< 16]" by simp
  also have "[0 ..< 16] = [0,1,2,3,4,5,6,7,8,9,10,11,12,13,14,15::nat]" by (simp add: upt_rec)
  finally show ?thesis
    by (auto simp: hex_digit_value_def digit_char_def)
qed

lemma hex_value_snoc: "hex_value (s @ [c]) = 16 * hex_value s + hex_digit_value c"
  by (simp add: hex_value_def)

text \<open>Reading the digits of \<open>hex_nat n\<close> as a hexadecimal numeral gives \<open>n\<close> back.\<close>

lemma hex_value_hex_nat: "hex_value (hex_nat n) = n"
proof (induction n rule: hex_nat.induct)
  case (1 n)
  show ?case
  proof (cases "n < 16")
    case True
    then show ?thesis
      by (subst hex_nat.simps) (simp add: hex_value_def hex_digit_value_digit_char)
  next
    case False
    then show ?thesis using 1
      by (subst hex_nat.simps) (simp add: hex_value_snoc hex_digit_value_digit_char)
  qed
qed

lemma flash_binary_default_command:
  "py_format other [(''address'', PyInt address)] ''program {{binary}} verify {address:#x};''
     = Inr (''program {binary} verify '' @ format_alt_hex address @ '';'')"
  by (simp add: render_field_def format_value_def is_digit_def)

section \<open>Facts about decoding\<close>

lemma decode_utf8_empty: "decode_utf8 [] = Inr []"
  by (simp add: decode_utf8_def)





text \<open>When both streams decode, the printed output is the two texts, standard output first.\<close>

lemma print_output_decoded:
  assumes "decode_utf8 (stdout p) = Inr out" and "decode_utf8 (stderr p) = Inr err"
  shows "print_output p = Inr (out @ err)"
proof -
  have o: "out = []" if "stdout p = []"
    using assms(1) that by (simp add: decode_utf8_empty)
  have e: "err = []" if "stderr p = []"
    using assms(2) that by (simp add: decode_utf8_empty)
  show ?thesis
    using assms o e by (simp add: print_output_def)
qed

section \<open>Facts about the command line\<close>

text \<open>
  The two fixed templates of \<^verbatim>\<open>_run_openocd_commands\<close> never fail: the command line is
  the five clauses and \<^verbatim>\<open>exit\<close>, one space between each two.
\<close>

lemma source_clause_eq:
  "source_clause env self =
     Inr (if openocd_board self = PyNone then []
          else ''source [find board/'' @ py_str (openocd_board self) @ ''];'')"
  by (simp add: source_clause_def render_field_def format_value_def is_digit_def)

lemma openocd_command_eq:
  "openocd_command env self commands =
     Inr (''openocd -c \"'' @ py_str (prefix_clause self) @ '' ''
          @ (if openocd_board self = PyNone then []
             else ''source [find board/'' @ py_str (openocd_board self) @ ''];'') @ '' ''
          @ cmd_prefix_clause self @ '' '' @ commands @ '' '' @ cmd_suffix_clause self
          @ '' exit\"'')"
  unfolding openocd_command_def source_clause_eq
  by (simp add: render_field_def format_value_def is_digit_def)

lemma openocd_command_embeds:
  assumes "openocd_command env self commands = Inr command"
  shows "sublist commands command"
proof -
  have "command = (''openocd -c \"'' @ py_str (prefix_clause self) @ '' ''
          @ (if openocd_board self = PyNone then []
             else ''source [find board/'' @ py_str (openocd_board self) @ ''];'') @ '' ''
          @ cmd_prefix_clause self @ '' '') @ commands @ ('' '' @ cmd_suffix_clause self
          @ '' exit\"'')"
    using assms unfolding openocd_command_eq by simp
  then show ?thesis
    unfolding sublist_def by blast
qed

section \<open>Facts about the process runner\<close>

lemma stage_binary_invocations:
  "stage_binary env self commands binary write w = (r, w') \<Longrightarrow> invocations w' = invocations w"
  by (auto simp: stage_binary_def Let_def split: if_splits sum.splits)

text \<open>Once the tool has been started and has completed, its answer alone decides the outcome.\<close>

lemma run_openocd_commands_outcome:
  assumes "invocations (snd (run_openocd_commands env self commands binary write w))
             = invocations w @ [(command, temp_bin)]"
      and "tool env command temp_bin = Completed p content"
  shows "fst (run_openocd_commands env self commands binary write w)
           = process_outcome self write p content"
proof (cases "stage_binary env self commands binary write w")
  case (Pair r w1)
  note inv = stage_binary_invocations [OF Pair]
  show ?thesis
  proof (cases r)
    case (Inl e)
    with Pair inv assms(1) show ?thesis
      by (simp add: run_openocd_commands_def)
  next
    case (Inr ct)
    obtain c t where ct: "ct = (c, t)" by (cases ct)
    obtain cmd where cmd: "openocd_command env self c = Inr cmd"
      using openocd_command_eq by blast
    from Pair Inr ct cmd inv assms(1) have "cmd = command" "t = temp_bin"
      by (auto simp: run_openocd_commands_def Let_def split: tool_result.splits)
    with Pair Inr ct cmd assms(2) show ?thesis
      by (simp add: run_openocd_commands_def Let_def)
  qed
qed

text \<open>A run that exits with status 0, decodes and does not report a missing J-Link device succeeds.\<close>

lemma process_outcome_clean:
  assumes "returncode p = 0" and "decode_utf8 (stdout p) = Inr out"
      and "\<not> sublist ''Error: No J-Link device found.'' out"
      and "debug self \<longrightarrow> (\<exists>err. decode_utf8 (stderr p) = Inr err)"
  shows "process_outcome self write p content
           = (if \<not> write then Inr (Some content) else Inr None)"
proof (cases "debug self")
  case True
  with assms(4) obtain err where "decode_utf8 (stderr p) = Inr err" by blast
  from print_output_decoded [OF assms(2) this] assms(1,2,3) show ?thesis
    by (simp add: process_outcome_def)
next
  case False
  with assms(1,2,3) show ?thesis
    by (simp add: process_outcome_def)
qed

text \<open>A write with nothing to write stages no file and passes the command on as it is.\<close>

lemma run_unstaged:
  assumes "\<not> truthy_bytes binary" and "openocd_command env self commands = Inr command"
  shows "invocations (snd (run_openocd_commands env self commands binary True w))
           = invocations w @ [(command, None)]"
    and "temp_files (snd (run_openocd_commands env self commands binary True w)) = temp_files w"
    and "collect_temp_files (snd (run_openocd_commands env self commands binary True w))
           = collect_temp_files w"
  using assms
  by (auto simp: run_openocd_commands_def stage_binary_def Let_def split: tool_result.splits)

lemma process_outcome_read:
  "process_outcome self False p content = Inr result \<Longrightarrow> result = Some content"
  by (auto simp: process_outcome_def split: sum.splits if_splits)

text \<open>A read that returns has run the tool on a fresh, empty staging file and returns what the file then holds.\<close>

lemma run_read_result:
  assumes "run_openocd_commands env self commands binary False w = (Inr result, w')"
  shows "\<exists>command tf p content.
           invocations w' = invocations w @ [(command, Some tf)]
         \<and> tf_content tf = []
         \<and> tool env command (Some tf) = Completed p content
         \<and> result = Some content"
  using assms
  by (auto simp: run_openocd_commands_def stage_binary_def Let_def
           split: tool_result.splits sum.splits if_splits dest: process_outcome_read)

lemma erase_page_default:
  assumes "openocd_commands self ''erase'' = None"
  shows "erase_page env self address w =
           (case run_openocd_commands env self
                   (''flash fillb '' @ format_alt_hex address @ '' 0xff 512;'') None True w of
              (Inl e, w) \<Rightarrow> (Inl e, w)
            | (Inr r, w) \<Rightarrow> (Inr (), w))"
proof -
  have first: "py_format (format_other env) [(''address'', PyInt address)]
                 ''flash fillb {address:#x} 0xff 512;''
               = Inr (''flash fillb '' @ format_alt_hex address @ '' 0xff 512;'')"
    by (simp add: render_field_def format_value_def is_digit_def)
  have again: "py_format (format_other env) [(''address'', PyInt address)]
                 (''flash fillb '' @ format_alt_hex address @ '' 0xff 512;'')
               = Inr (''flash fillb '' @ format_alt_hex address @ '' 0xff 512;'')"
    by (rule py_format_plain) (simp_all add: format_alt_hex_plain)
  show ?thesis
    unfolding erase_page_def first
    by (simp only: assms again Let_def option.case sum.case)
qed

section \<open>Facts about the attribute scan\<close>

lemma scan_attribute_page_size:
  "page_size self \<noteq> PyInt 0 \<Longrightarrow> page_size (scan_attribute self a) = page_size self"
  by (simp add: scan_attribute_def Let_def split: option.splits)

lemma scan_attributes_page_size:
  "page_size self \<noteq> PyInt 0 \<Longrightarrow> page_size (scan_attributes self xs) = page_size self"
  unfolding scan_attributes_def
  by (induction xs arbitrary: self) (simp_all add: scan_attribute_page_size)

lemma scan_attributes_append:
  "scan_attributes self (xs @ ys) = scan_attributes (scan_attributes self xs) ys"
  by (simp add: scan_attributes_def)

lemma determine_scan_path:
  assumes "already_set self = Inr False" and "lookup_known_board env self = None"
      and "get_all_attributes env = Inr attributes"
  shows "determine_current_board env self w =
           (check_learned (scan_attributes self attributes), scan_attributes self attributes,
            w\<lparr>attribute_queries := Suc (attribute_queries w)\<rparr>)"
  using assms by (simp add: determine_current_board_def Let_def)

section \<open>The process runner's classification of the tool's answer\<close>










section \<open>The flash operations\<close>

text \<open>
  Claim C1. For every address, every length \<open>len\<close> (an unsigned integer), every
  configuration and every behaviour of the external tool: when \<^verbatim>\<open>read_range\<close> returns a
  buffer, the tool was run on a staging file, and the buffer is the first \<open>len\<close> bytes of
  what that file held afterwards. So it is never longer than \<open>len\<close>, it is cut to \<open>len\<close>
  when the file holds more, and when the file holds less it is the file's content with
  nothing added.
\<close>

theorem read_range_at_most_length:
  assumes "0 \<le> len" and "fst (read_range env self address len w) = Inr read"
  shows "length read \<le> nat len
       \<and> (\<exists>command tf p content.
             invocations (snd (read_range env self address len w))
               = invocations w @ [(command, Some tf)]
           \<and> tool env command (Some tf) = Completed p content
           \<and> read = take (nat len) content)"
proof -
  from assms(2) obtain command result w' where
    run: "run_openocd_commands env self command None False w = (Inr result, w')" and
    w': "snd (read_range env self address len w) = w'" and
    rd: "read = (let r = (if truthy_bytes result
                          then (case result of Some bs \<Rightarrow> bs | None \<Rightarrow> []) else [])
                 in if int (length r) > len then py_slice_upto r len else r)"
    by (auto simp: read_range_def Let_def split: sum.splits prod.splits)
  from run_read_result [OF run] obtain cmd tf p content where
    inv: "invocations w' = invocations w @ [(cmd, Some tf)]" and
    tl: "tool env cmd (Some tf) = Completed p content" and
    res: "result = Some content"
    by blast
  from rd res assms(1) have "read = take (nat len) content"
    by (auto simp: Let_def truthy_bytes_def py_slice_upto_def)
  with inv tl w' show ?thesis by auto
qed

lemma demo_read_range:
  "fst (read_range (demo_env (Completed \<lparr>returncode = 0, stdout = [], stderr = []\<rparr> content))
          demo_board 196608 3 demo_world)
     = Inr (if 3 < length content then take 3 content else content)"
  by (simp add: read_range_def run_openocd_commands_def stage_binary_def openocd_command_eq
        process_outcome_def decode_utf8_empty
        render_field_def format_value_def is_digit_def truthy_bytes_def py_slice_upto_def
        format_alt_hex_def hex_nat.simps str_int_def str_nat.simps digit_char_def
        demo_defs Let_def)

theorem read_range_at_most_length_witness:
  "(0::int) \<le> 3
   \<and> fst (read_range (demo_env (Completed \<lparr>returncode = 0, stdout = [], stderr = []\<rparr>
                                   [1, 2, 3, 4, 5]))
            demo_board 196608 3 demo_world) = Inr [1, 2, 3]
   \<and> length [1, 2, 3 :: byte] \<le> nat 3
   \<and> fst (read_range (demo_env (Completed \<lparr>returncode = 0, stdout = [], stderr = []\<rparr> [1, 2]))
            demo_board 196608 3 demo_world) = Inr [1, 2]
   \<and> length [1, 2 :: byte] \<le> nat 3"
proof -
  have h0: "(0::int) \<le> 3" by simp
  have h1: "fst (read_range (demo_env (Completed \<lparr>returncode = 0, stdout = [], stderr = []\<rparr>
                                         [1, 2, 3, 4, 5]))
                  demo_board 196608 3 demo_world) = Inr [1, 2, 3]"
    by (simp add: demo_read_range)
  have h2: "fst (read_range (demo_env (Completed \<lparr>returncode = 0, stdout = [], stderr = []\<rparr>
                                         [1, 2]))
                  demo_board 196608 3 demo_world) = Inr [1, 2]"
    by (simp add: demo_read_range)
  from read_range_at_most_length [OF h0 h1] read_range_at_most_length [OF h0 h2] h0 h1 h2
  show ?thesis by blast
qed

text \<open>
  Claim C6. For every address, when the configuration has no \<^verbatim>\<open>erase\<close> override,
  \<^verbatim>\<open>erase_page\<close> stages no file and runs the external tool once, on the command line
  built around \<^verbatim>\<open>flash fillb <address> 0xff 512;\<close>: a fill of 512 bytes with the value
  \<^verbatim>\<open>0xff\<close>. The address is written as \<^verbatim>\<open>0x\<close> and its hexadecimal digits (for an
  address that is not negative, the digits read back as that address). When the tool
  completes with status 0, its output decodes (the standard output always, the standard
  error in debug mode) and does not report a missing J-Link device, \<^verbatim>\<open>erase_page\<close>
  returns, and returns nothing.
\<close>

theorem erase_page_fills_512_bytes:
  assumes "openocd_commands self ''erase'' = None"
  shows "\<exists>command.
           openocd_command env self
             (''flash fillb '' @ format_alt_hex address @ '' 0xff 512;'') = Inr command
         \<and> sublist (''flash fillb '' @ format_alt_hex address @ '' 0xff 512;'') command
         \<and> invocations (snd (erase_page env self address w)) = invocations w @ [(command, None)]
         \<and> temp_files (snd (erase_page env self address w)) = temp_files w
         \<and> (\<forall>p content out.
               tool env command None = Completed p content \<and> returncode p = 0
               \<and> decode_utf8 (stdout p) = Inr out
               \<and> \<not> sublist ''Error: No J-Link device found.'' out
               \<and> (debug self \<longrightarrow> (\<exists>err. decode_utf8 (stderr p) = Inr err))
               \<longrightarrow> fst (erase_page env self address w) = Inr ())
         \<and> (0 \<le> address \<longrightarrow>
               format_alt_hex address = ''0x'' @ hex_nat (nat address)
               \<and> hex_value (hex_nat (nat address)) = nat address)"
proof -
  let ?c = "''flash fillb '' @ format_alt_hex address @ '' 0xff 512;''"
  let ?run = "run_openocd_commands env self ?c None True w"
  obtain command where cmd: "openocd_command env self ?c = Inr command"
    using openocd_command_eq by blast
  have nb: "\<not> truthy_bytes None" by (simp add: truthy_bytes_def)
  note un = run_unstaged [OF nb cmd, of w]
  have ep: "erase_page env self address w =
              (case ?run of (Inl e, w) \<Rightarrow> (Inl e, w) | (Inr r, w) \<Rightarrow> (Inr (), w))"
    by (rule erase_page_default [OF assms])
  have w_eq: "snd (erase_page env self address w) = snd ?run"
    unfolding ep by (simp split: prod.splits sum.splits)
  have ok: "fst (erase_page env self address w) = Inr ()"
    if "tool env command None = Completed p content" "returncode p = 0"
       "decode_utf8 (stdout p) = Inr out"
       "\<not> sublist ''Error: No J-Link device found.'' out"
       "debug self \<longrightarrow> (\<exists>err. decode_utf8 (stderr p) = Inr err)" for p content out
  proof -
    have "fst ?run = Inr None"
      unfolding run_openocd_commands_outcome [OF un(1) that(1)]
      by (simp add: process_outcome_clean [OF that(2,3,4,5)])
    then show ?thesis unfolding ep by (cases ?run) auto
  qed
  have hex: "format_alt_hex address = ''0x'' @ hex_nat (nat address)
             \<and> hex_value (hex_nat (nat address)) = nat address" if "0 \<le> address"
    using that by (simp add: format_alt_hex_def hex_value_hex_nat)
  from cmd openocd_command_embeds [OF cmd] un(1,2) ok hex show ?thesis
    unfolding w_eq by blast
qed

lemma format_alt_hex_demo: "format_alt_hex 196608 = ''0x30000''"
  by (simp add: format_alt_hex_def hex_nat.simps digit_char_def)

theorem erase_page_fills_512_bytes_witness:
  "openocd_commands demo_board ''erase'' = None
   \<and> invocations (snd (erase_page
         (demo_env (Completed \<lparr>returncode = 0, stdout = [], stderr = []\<rparr> []))
         demo_board 196608 demo_world))
       = [(''openocd -c \"  init; reset init; halt; flash fillb 0x30000 0xff 512;  exit\"'', None)]
   \<and> temp_files (snd (erase_page
         (demo_env (Completed \<lparr>returncode = 0, stdout = [], stderr = []\<rparr> []))
         demo_board 196608 demo_world)) = []
   \<and> fst (erase_page (demo_env (Completed \<lparr>returncode = 0, stdout = [], stderr = []\<rparr> []))
            demo_board 196608 demo_world) = Inr ()"
proof -
  let ?p = "\<lparr>returncode = 0, stdout = [], stderr = []\<rparr>"
  let ?env = "demo_env (Completed ?p [])"
  let ?line = "''openocd -c \"  init; reset init; halt; flash fillb 0x30000 0xff 512;  exit\"''"
  have h: "openocd_commands demo_board ''erase'' = None"
    by (simp add: demo_board_def)
  have line: "openocd_command ?env demo_board
                (''flash fillb '' @ format_alt_hex 196608 @ '' 0xff 512;'') = Inr ?line"
    by (simp add: format_alt_hex_demo openocd_command_eq prefix_clause_def cmd_prefix_clause_def
          cmd_suffix_clause_def demo_board_def)
  have t: "tool ?env ?line None = Completed ?p []" "returncode ?p = 0"
          "decode_utf8 (stdout ?p) = Inr []"
          "\<not> sublist ''Error: No J-Link device found.'' []"
          "debug demo_board \<longrightarrow> (\<exists>err. decode_utf8 (stderr ?p) = Inr err)"
    by (simp_all add: demo_env_def demo_board_def decode_utf8_empty)
  from erase_page_fills_512_bytes [OF h, of ?env 196608 demo_world]
  obtain command where
    c: "openocd_command ?env demo_board
          (''flash fillb '' @ format_alt_hex 196608 @ '' 0xff 512;'') = Inr command"
       "invocations (snd (erase_page ?env demo_board 196608 demo_world))
          = invocations demo_world @ [(command, None)]"
       "temp_files (snd (erase_page ?env demo_board 196608 demo_world)) = temp_files demo_world"
       "\<forall>p content out.
          tool ?env command None = Completed p content \<and> returncode p = 0
          \<and> decode_utf8 (stdout p) = Inr out
          \<and> \<not> sublist ''Error: No J-Link device found.'' out
          \<and> (debug demo_board \<longrightarrow> (\<exists>err. decode_utf8 (stderr p) = Inr err))
          \<longrightarrow> fst (erase_page ?env demo_board 196608 demo_world) = Inr ()"
    by blast
  from c(1) line have eq: "command = ?line" by simp
  from c(4) t have "fst (erase_page ?env demo_board 196608 demo_world) = Inr ()"
    unfolding eq by blast
  with h c(2,3) show ?thesis
    unfolding eq by (simp add: demo_world_def)
qed

text \<open>
  Claim C10. For every address and configuration, \<^verbatim>\<open>flash_binary\<close> with an empty buffer
  creates no staging file and records no file name. The command it hands to the external
  tool is built around the operation command exactly as the substitution of the address
  left it, with no second substitution; with the default \<^verbatim>\<open>program\<close> template that is
  \<^verbatim>\<open>program {binary} verify <address>;\<close>, so the command line still contains the
  placeholder \<^verbatim>\<open>{binary}\<close> itself.
\<close>

theorem flash_binary_empty_buffer:
  "temp_files (snd (flash_binary env self address [] w)) = temp_files w
   \<and> collect_temp_files (snd (flash_binary env self address [] w)) = collect_temp_files w
   \<and> (\<forall>command.
         py_format (format_other env) [(''address'', PyInt address)]
           (case openocd_commands self ''program'' of
              Some c \<Rightarrow> c | None \<Rightarrow> ''program {{binary}} verify {address:#x};'') = Inr command
         \<longrightarrow> (\<exists>line. openocd_command env self command = Inr line
                  \<and> sublist command line
                  \<and> invocations (snd (flash_binary env self address [] w))
                      = invocations w @ [(line, None)]))
   \<and> (openocd_commands self ''program'' = None
        \<longrightarrow> (\<exists>line. openocd_command env self
                         (''program {binary} verify '' @ format_alt_hex address @ '';'') = Inr line
                  \<and> sublist ''{binary}'' line
                  \<and> invocations (snd (flash_binary env self address [] w))
                      = invocations w @ [(line, None)]))"
proof -
  let ?t = "case openocd_commands self ''program'' of
              Some c \<Rightarrow> c | None \<Rightarrow> ''program {{binary}} verify {address:#x};''"
  let ?f = "py_format (format_other env) [(''address'', PyInt address)] ?t"
  have nb: "\<not> truthy_bytes (Some [])" by (simp add: truthy_bytes_def)
  have fb: "flash_binary env self address [] w =
              (case ?f of
                 Inl e \<Rightarrow> (Inl e, w)
               | Inr command \<Rightarrow>
                   (case run_openocd_commands env self command (Some []) True w of
                      (Inl e, w) \<Rightarrow> (Inl e, w)
                    | (Inr r, w) \<Rightarrow> (Inr (), w)))"
    by (simp add: flash_binary_def Let_def)
  have snd_eq: "snd (flash_binary env self address [] w)
                  = snd (run_openocd_commands env self command (Some []) True w)"
    if "?f = Inr command" for command
    unfolding fb that by (simp split: prod.splits sum.splits)
  have general: "\<exists>line. openocd_command env self command = Inr line
                  \<and> sublist command line
                  \<and> invocations (snd (flash_binary env self address [] w))
                      = invocations w @ [(line, None)]
                  \<and> temp_files (snd (flash_binary env self address [] w)) = temp_files w
                  \<and> collect_temp_files (snd (flash_binary env self address [] w))
                      = collect_temp_files w"
    if "?f = Inr command" for command
  proof -
    obtain line where line: "openocd_command env self command = Inr line"
      using openocd_command_eq by blast
    from run_unstaged [OF nb line, of w] openocd_command_embeds [OF line] line
    show ?thesis unfolding snd_eq [OF that] by blast
  qed
  have files: "temp_files (snd (flash_binary env self address [] w)) = temp_files w
             \<and> collect_temp_files (snd (flash_binary env self address [] w))
                 = collect_temp_files w"
  proof (cases ?f)
    case (Inl e)
    then show ?thesis unfolding fb by simp
  next
    case (Inr command)
    from general [OF Inr] show ?thesis by blast
  qed
  have dflt: "\<exists>line. openocd_command env self
                         (''program {binary} verify '' @ format_alt_hex address @ '';'') = Inr line
                  \<and> sublist ''{binary}'' line
                  \<and> invocations (snd (flash_binary env self address [] w))
                      = invocations w @ [(line, None)]"
    if none: "openocd_commands self ''program'' = None"
  proof -
    let ?c = "''program {binary} verify '' @ format_alt_hex address @ '';''"
    have "?f = Inr ?c"
      unfolding none option.case by (rule flash_binary_default_command)
    from general [OF this] obtain line where
      l: "openocd_command env self ?c = Inr line" "sublist ?c line"
         "invocations (snd (flash_binary env self address [] w)) = invocations w @ [(line, None)]"
      by blast
    have "sublist ''{binary}'' ?c"
      unfolding sublist_def
      by (rule exI [of _ "''program ''"],
          rule exI [of _ "'' verify '' @ format_alt_hex address @ '';''"]) simp
    from this l(2) have "sublist ''{binary}'' line"
      by (rule sublist_order.order_trans)
    with l(1,3) show ?thesis by blast
  qed
  from files general dflt show ?thesis by blast
qed

theorem flash_binary_empty_buffer_witness:
  "openocd_commands demo_board ''program'' = None
   \<and> temp_files (snd (flash_binary
         (demo_env (Completed \<lparr>returncode = 0, stdout = [], stderr = []\<rparr> []))
         demo_board 196608 [] demo_world)) = []
   \<and> invocations (snd (flash_binary
         (demo_env (Completed \<lparr>returncode = 0, stdout = [], stderr = []\<rparr> []))
         demo_board 196608 [] demo_world))
       = [(''openocd -c \"  init; reset init; halt; program {binary} verify 0x30000;  exit\"'',
           None)]"
proof -
  let ?env = "demo_env (Completed \<lparr>returncode = 0, stdout = [], stderr = []\<rparr> [])"
  let ?line = "''openocd -c \"  init; reset init; halt; program {binary} verify 0x30000;  exit\"''"
  note inst = flash_binary_empty_buffer [of ?env demo_board 196608 demo_world]
  have h: "openocd_commands demo_board ''program'' = None"
    by (simp add: demo_board_def)
  have line: "openocd_command ?env demo_board
                (''program {binary} verify '' @ format_alt_hex 196608 @ '';'') = Inr ?line"
    by (simp add: format_alt_hex_demo openocd_command_eq prefix_clause_def cmd_prefix_clause_def
          cmd_suffix_clause_def demo_board_def)
  from inst h obtain l where
    l: "openocd_command ?env demo_board
          (''program {binary} verify '' @ format_alt_hex 196608 @ '';'') = Inr l"
       "invocations (snd (flash_binary ?env demo_board 196608 [] demo_world))
          = invocations demo_world @ [(l, None)]"
    by blast
  from l(1) line have eq: "l = ?line" by simp
  from inst have "temp_files (snd (flash_binary ?env demo_board 196608 [] demo_world))
                   = temp_files demo_world"
    by blast
  with h l(2) show ?thesis
    unfolding eq by (simp add: demo_world_def)
qed

section \<open>The clauses of the command line\<close>

text \<open>
  Claim C7. The command line starts with \<^verbatim>\<open>openocd -c "\<close>, the prefix clause and a
  space. When the options contain \<^verbatim>\<open>workareazero\<close> and no prefix is configured (the field
  is \<^verbatim>\<open>None\<close> or empty, which is how the code tests it), the prefix clause is
  \<^verbatim>\<open>set WORKAREASIZE 0;\<close>. When a prefix is configured, the prefix clause is that
  prefix, whatever the options are.
\<close>

theorem prefix_clause_rules:
  "(''workareazero'' \<in> set (openocd_options self) \<and> \<not> truthy (openocd_prefix self)
      \<longrightarrow> prefix_clause self = PyStr ''set WORKAREASIZE 0;'')
   \<and> (truthy (openocd_prefix self) \<longrightarrow> prefix_clause self = openocd_prefix self)
   \<and> (\<exists>rest. openocd_command env self commands
                = Inr (''openocd -c \"'' @ py_str (prefix_clause self) @ '' '' @ rest))"
proof -
  have "\<exists>rest. openocd_command env self commands
                = Inr (''openocd -c \"'' @ py_str (prefix_clause self) @ '' '' @ rest)"
    unfolding openocd_command_eq by blast
  then show ?thesis
    by (simp add: prefix_clause_def)
qed

theorem prefix_clause_rules_witness:
  "''workareazero'' \<in> set (openocd_options (demo_board\<lparr>openocd_options := [''workareazero'']\<rparr>))
   \<and> \<not> truthy (openocd_prefix (demo_board\<lparr>openocd_options := [''workareazero'']\<rparr>))
   \<and> prefix_clause (demo_board\<lparr>openocd_options := [''workareazero'']\<rparr>)
       = PyStr ''set WORKAREASIZE 0;''
   \<and> truthy (openocd_prefix (demo_board\<lparr>openocd_options := [''workareazero''],
                                            openocd_prefix := PyStr ''adapter speed 100;''\<rparr>))
   \<and> prefix_clause (demo_board\<lparr>openocd_options := [''workareazero''],
                                 openocd_prefix := PyStr ''adapter speed 100;''\<rparr>)
       = PyStr ''adapter speed 100;''"
proof -
  let ?a = "demo_board\<lparr>openocd_options := [''workareazero'']\<rparr>"
  let ?b = "demo_board\<lparr>openocd_options := [''workareazero''],
                        openocd_prefix := PyStr ''adapter speed 100;''\<rparr>"
  have a: "''workareazero'' \<in> set (openocd_options ?a)" "\<not> truthy (openocd_prefix ?a)"
    by (simp_all add: demo_board_def)
  have b: "truthy (openocd_prefix ?b)" "openocd_prefix ?b = PyStr ''adapter speed 100;''"
    by (simp_all add: demo_board_def)
  from prefix_clause_rules [of ?a] a
  have "prefix_clause ?a = PyStr ''set WORKAREASIZE 0;''" by blast
  moreover from prefix_clause_rules [of ?b] b
  have "prefix_clause ?b = PyStr ''adapter speed 100;''" by simp
  ultimately show ?thesis using a b(1) by blast
qed

text \<open>
  Claim C8. The command line is the prefix, the source clause, the preamble, the
  operation's command, the suffix and \<^verbatim>\<open>exit\<close>, one space between each two. With the
  option \<^verbatim>\<open>noreset\<close> and without \<^verbatim>\<open>nocmdprefix\<close> the preamble is \<^verbatim>\<open>init; halt;\<close>, which has
  no \<^verbatim>\<open>reset init\<close> step; with \<^verbatim>\<open>nocmdprefix\<close> the preamble is empty; and when the
  probe-tool board name is \<^verbatim>\<open>None\<close> the source clause is empty.
\<close>

theorem preamble_and_source_rules:
  "(''noreset'' \<in> set (openocd_options self) \<and> ''nocmdprefix'' \<notin> set (openocd_options self)
      \<longrightarrow> cmd_prefix_clause self = ''init; halt;'')
   \<and> (''nocmdprefix'' \<in> set (openocd_options self) \<longrightarrow> cmd_prefix_clause self = [])
   \<and> (openocd_board self = PyNone \<longrightarrow> source_clause env self = Inr [])
   \<and> (\<exists>source. source_clause env self = Inr source
         \<and> openocd_command env self commands
             = Inr (''openocd -c \"'' @ py_str (prefix_clause self) @ '' '' @ source @ '' ''
                    @ cmd_prefix_clause self @ '' '' @ commands @ '' ''
                    @ cmd_suffix_clause self @ '' exit\"''))
   \<and> \<not> sublist ''reset init'' ''init; halt;''"
proof -
  have "\<exists>source. source_clause env self = Inr source
         \<and> openocd_command env self commands
             = Inr (''openocd -c \"'' @ py_str (prefix_clause self) @ '' '' @ source @ '' ''
                    @ cmd_prefix_clause self @ '' '' @ commands @ '' ''
                    @ cmd_suffix_clause self @ '' exit\"'')"
    unfolding openocd_command_eq source_clause_eq by blast
  moreover have "openocd_board self = PyNone \<longrightarrow> source_clause env self = Inr []"
    unfolding source_clause_eq by simp
  moreover have "\<not> sublist ''reset init'' ''init; halt;''"
    by (simp add: sublist_code)
  ultimately show ?thesis
    by (simp add: cmd_prefix_clause_def)
qed

theorem preamble_and_source_rules_witness:
  "''noreset'' \<in> set (openocd_options (demo_board\<lparr>openocd_options := [''noreset'']\<rparr>))
   \<and> ''nocmdprefix'' \<notin> set (openocd_options (demo_board\<lparr>openocd_options := [''noreset'']\<rparr>))
   \<and> cmd_prefix_clause (demo_board\<lparr>openocd_options := [''noreset'']\<rparr>) = ''init; halt;''
   \<and> ''nocmdprefix''
        \<in> set (openocd_options (demo_board\<lparr>openocd_options := [''noreset'', ''nocmdprefix'']\<rparr>))
   \<and> cmd_prefix_clause (demo_board\<lparr>openocd_options := [''noreset'', ''nocmdprefix'']\<rparr>) = []
   \<and> openocd_board (demo_board\<lparr>openocd_options := [''noreset'']\<rparr>) = PyNone
   \<and> openocd_command (demo_env (Raised ValueError))
        (demo_board\<lparr>openocd_options := [''noreset'']\<rparr>) ''reset run;''
       = Inr ''openocd -c \"  init; halt; reset run;  exit\"''"
proof -
  let ?a = "demo_board\<lparr>openocd_options := [''noreset'']\<rparr>"
  let ?b = "demo_board\<lparr>openocd_options := [''noreset'', ''nocmdprefix'']\<rparr>"
  let ?env = "demo_env (Raised ValueError)"
  have a: "''noreset'' \<in> set (openocd_options ?a)" "''nocmdprefix'' \<notin> set (openocd_options ?a)"
          "openocd_board ?a = PyNone"
    by (simp_all add: demo_board_def)
  have b: "''nocmdprefix'' \<in> set (openocd_options ?b)"
    by (simp add: demo_board_def)
  have others: "py_str (prefix_clause ?a) = []" "cmd_suffix_clause ?a = []"
    by (simp_all add: prefix_clause_def cmd_suffix_clause_def demo_board_def)
  note ra = preamble_and_source_rules [of ?a ?env "''reset run;''"]
  from ra a have pa: "cmd_prefix_clause ?a = ''init; halt;''" by blast
  from ra a have sa: "source_clause ?env ?a = Inr []" by blast
  from ra obtain source where
    src: "source_clause ?env ?a = Inr source" and
    line: "openocd_command ?env ?a ''reset run;''
             = Inr (''openocd -c \"'' @ py_str (prefix_clause ?a) @ '' '' @ source @ '' ''
                    @ cmd_prefix_clause ?a @ '' '' @ ''reset run;'' @ '' ''
                    @ cmd_suffix_clause ?a @ '' exit\"'')"
    by blast
  from src sa have "source = []" by simp
  with line pa others
  have la: "openocd_command ?env ?a ''reset run;'' = Inr ''openocd -c \"  init; halt; reset run;  exit\"''"
    by simp
  from preamble_and_source_rules [of ?b] b have pb: "cmd_prefix_clause ?b = []" by blast
  from a b pa pb la show ?thesis by blast
qed

section \<open>The board resolver\<close>

text \<open>
  Claim C9. In the attribute scan a \<^verbatim>\<open>pagesize\<close> record is the only thing that changes
  the page size, and only while the page size is zero. A record \<^verbatim>\<open>pagesize=0\<close> leaves
  the whole object as it is, so a second one changes nothing. Once the page size is not
  zero, whether an earlier record or the caller's configuration made it so, no later
  record changes it. When the resolver reaches the scan, the object it leaves is the
  result of that scan.
\<close>

theorem pagesize_set_only_when_zero:
  "(page_size (scan_attribute self a) \<noteq> page_size self
      \<longrightarrow> page_size self = PyInt 0
          \<and> (\<exists>r. a = Some r \<and> attr_key r = ''pagesize''
                   \<and> page_size (scan_attribute self a) = attr_value r))
   \<and> scan_attribute self (pagesize_record (PyInt 0)) = self
   \<and> (page_size self \<noteq> PyInt 0 \<longrightarrow> page_size (scan_attributes self xs) = page_size self)
   \<and> (page_size (scan_attributes self xs) \<noteq> PyInt 0
        \<longrightarrow> page_size (scan_attributes self (xs @ ys)) = page_size (scan_attributes self xs))
   \<and> (already_set self = Inr False \<and> lookup_known_board env self = None
        \<and> get_all_attributes env = Inr xs
        \<longrightarrow> fst (snd (determine_current_board env self w)) = scan_attributes self xs)"
proof -
  have step: "page_size (scan_attribute self a) \<noteq> page_size self
      \<longrightarrow> page_size self = PyInt 0
          \<and> (\<exists>r. a = Some r \<and> attr_key r = ''pagesize''
                   \<and> page_size (scan_attribute self a) = attr_value r)"
    by (auto simp: scan_attribute_def Let_def split: option.splits if_splits)
  have zero: "scan_attribute self (pagesize_record (PyInt 0)) = self"
    by (simp add: scan_attribute_def pagesize_record_def Let_def)
  have later: "page_size (scan_attributes self (xs @ ys)) = page_size (scan_attributes self xs)"
    if "page_size (scan_attributes self xs) \<noteq> PyInt 0"
    unfolding scan_attributes_append by (rule scan_attributes_page_size [OF that])
  have path: "fst (snd (determine_current_board env self w)) = scan_attributes self xs"
    if "already_set self = Inr False" "lookup_known_board env self = None"
       "get_all_attributes env = Inr xs"
    by (simp add: determine_scan_path [OF that])
  from step zero later path scan_attributes_page_size [of self xs] show ?thesis
    by blast
qed

theorem pagesize_set_only_when_zero_witness:
  "page_size (scan_attributes demo_board [pagesize_record (PyInt 0)]) = PyInt 0
   \<and> page_size (scan_attributes demo_board [pagesize_record (PyInt 0), pagesize_record (PyInt 512)])
       = PyInt 512
   \<and> page_size (scan_attributes demo_board [pagesize_record (PyInt 0), pagesize_record (PyInt 512)])
       \<noteq> PyInt 0
   \<and> page_size (scan_attributes demo_board
        ([pagesize_record (PyInt 0), pagesize_record (PyInt 512)]
         @ [pagesize_record (PyInt 0), pagesize_record (PyInt 1024)]))
       = PyInt 512
   \<and> page_size (demo_board\<lparr>page_size := PyInt 256\<rparr>) \<noteq> PyInt 0
   \<and> page_size (scan_attributes (demo_board\<lparr>page_size := PyInt 256\<rparr>)
        [pagesize_record (PyInt 0), pagesize_record (PyInt 512)])
       = PyInt 256"
proof -
  let ?xs = "[pagesize_record (PyInt 0), pagesize_record (PyInt 512)]"
  let ?ys = "[pagesize_record (PyInt 0), pagesize_record (PyInt 1024)]"
  let ?c = "demo_board\<lparr>page_size := PyInt 256\<rparr>"
  have z: "page_size (scan_attributes demo_board [pagesize_record (PyInt 0)]) = PyInt 0"
    by (simp add: scan_attributes_def scan_attribute_def pagesize_record_def demo_board_def)
  have x: "page_size (scan_attributes demo_board ?xs) = PyInt 512"
    by (simp add: scan_attributes_def scan_attribute_def pagesize_record_def demo_board_def)
  then have nz: "page_size (scan_attributes demo_board ?xs) \<noteq> PyInt 0" by simp
  have c: "page_size ?c \<noteq> PyInt 0" "page_size ?c = PyInt 256" by simp_all
  from pagesize_set_only_when_zero [of demo_board _ ?xs ?ys] nz x
  have "page_size (scan_attributes demo_board (?xs @ ?ys)) = PyInt 512" by simp
  moreover from pagesize_set_only_when_zero [of ?c _ ?xs] c
  have "page_size (scan_attributes ?c ?xs) = PyInt 256" by simp
  ultimately show ?thesis using z x nz c(1) by blast
qed

text \<open>
  Claim C3. When the resolver reaches the attribute scan (the first test is false, the
  board is not in the catalog, and the device yields its attributes), it leaves the
  object as the scan made it, and it fails with the board-undetermined error exactly
  when, in that object, the board is \<^verbatim>\<open>None\<close>, or the architecture is \<^verbatim>\<open>None\<close>, or the page
  size is zero, or the probe-tool board name is the string \<^verbatim>\<open>cortex-m0\<close>. In every
  other case it returns normally.
\<close>

theorem board_undetermined_after_scan:
  assumes "already_set self = Inr False" and "lookup_known_board env self = None"
      and "get_all_attributes env = Inr attributes"
  shows "fst (snd (determine_current_board env self w)) = scan_attributes self attributes
       \<and> (fst (determine_current_board env self w) = Inl BoardUndetermined
            \<longleftrightarrow> board (scan_attributes self attributes) = PyNone
                \<or> arch (scan_attributes self attributes) = PyNone
                \<or> page_size (scan_attributes self attributes) = PyInt 0
                \<or> openocd_board (scan_attributes self attributes) = PyStr ''cortex-m0'')
       \<and> (fst (determine_current_board env self w) = Inl BoardUndetermined
            \<or> fst (determine_current_board env self w) = Inr ())"
  unfolding determine_scan_path [OF assms]
  by (auto simp: check_learned_def)

theorem board_undetermined_after_scan_witness:
  "already_set (demo_board\<lparr>board := PyNone\<rparr>) = Inr False
   \<and> lookup_known_board
        (demo_env (Raised ValueError)\<lparr>get_all_attributes := Inr (demo_attributes ''cortex-m0'')\<rparr>)
        (demo_board\<lparr>board := PyNone\<rparr>) = None
   \<and> scan_attributes (demo_board\<lparr>board := PyNone\<rparr>) (demo_attributes ''cortex-m0'')
       = demo_board\<lparr>board := PyStr ''imix'', arch := PyStr ''cortex-m4'',
                    openocd_board := PyStr ''cortex-m0'', page_size := PyInt 512\<rparr>
   \<and> fst (determine_current_board
        (demo_env (Raised ValueError)\<lparr>get_all_attributes := Inr (demo_attributes ''cortex-m0'')\<rparr>)
        (demo_board\<lparr>board := PyNone\<rparr>) demo_world) = Inl BoardUndetermined
   \<and> fst (determine_current_board
        (demo_env (Raised ValueError)\<lparr>get_all_attributes := Inr (demo_attributes ''imix.cfg'')\<rparr>)
        (demo_board\<lparr>board := PyNone\<rparr>) demo_world) = Inr ()"
proof -
  let ?self = "demo_board\<lparr>board := PyNone\<rparr>"
  let ?env = "\<lambda>name. demo_env (Raised ValueError)\<lparr>get_all_attributes := Inr (demo_attributes name)\<rparr>"
  have h1: "already_set ?self = Inr False"
    by (simp add: already_set_def demo_board_def)
  have h2: "lookup_known_board (?env name) ?self = None" for name
    by (simp add: lookup_known_board_def demo_board_def)
  have h3: "get_all_attributes (?env name) = Inr (demo_attributes name)" for name
    by (simp add: demo_env_def)
  have sc: "scan_attributes ?self (demo_attributes name)
              = demo_board\<lparr>board := PyStr ''imix'', arch := PyStr ''cortex-m4'',
                           openocd_board := PyStr name, page_size := PyInt 512\<rparr>" for name
    by (simp add: scan_attributes_def scan_attribute_def demo_attributes_def demo_board_def)
  note bad = board_undetermined_after_scan [OF h1 h2 h3, of "''cortex-m0''" demo_world]
  note good = board_undetermined_after_scan [OF h1 h2 h3, of "''imix.cfg''" demo_world]
  from bad have "fst (determine_current_board (?env ''cortex-m0'') ?self demo_world)
                   = Inl BoardUndetermined"
    unfolding sc by simp
  moreover from good have "fst (determine_current_board (?env ''imix.cfg'') ?self demo_world)
                             = Inr ()"
    unfolding sc by (auto simp: demo_board_def)
  ultimately show ?thesis using h1 h2 [of "''cortex-m0''"] sc [of "''cortex-m0''"] by blast
qed

text \<open>
  Claim C4, as the code has it. When the board identity is set and the catalog has an
  entry for it, the resolver never asks the device for its attributes, whatever else
  happens. When the architecture or the probe-tool board name is not set (\<^verbatim>\<open>None\<close> or
  empty), or the page size is an integer that is not positive, it copies the
  architecture, the probe-tool board name and the page size from the entry, and the
  options, the prefix and the command overrides where the entry has them, and returns.
  When the architecture and the probe-tool board name are set and the page size is a
  positive integer, it returns at once and the object stays as the caller configured it.
  In the one remaining case, architecture and probe-tool board name set and a page size
  that is not an integer, the comparison \<^verbatim>\<open>self.page_size>0\<close> raises \<^verbatim>\<open>TypeError\<close> and
  nothing is copied.
\<close>

theorem known_board_skips_attribute_query:
  assumes "board self = PyStr b" and "b \<noteq> []" and "KNOWN_BOARDS env b = Some kb"
  shows "attribute_queries (snd (snd (determine_current_board env self w))) = attribute_queries w
       \<and> (\<not> truthy (arch self) \<or> \<not> truthy (openocd_board self)
            \<or> (\<exists>n. page_size self = PyInt n \<and> n \<le> 0) \<longrightarrow>
            determine_current_board env self w = (Inr (), use_known_board self kb, w)
          \<and> board (use_known_board self kb) = board self
          \<and> arch (use_known_board self kb) = kb_arch kb
          \<and> openocd_board (use_known_board self kb) = kb_openocd kb
          \<and> page_size (use_known_board self kb) = kb_page_size kb
          \<and> openocd_options (use_known_board self kb)
              = (case kb_openocd_options kb of Some v \<Rightarrow> v | None \<Rightarrow> openocd_options self)
          \<and> openocd_prefix (use_known_board self kb)
              = (case kb_openocd_prefix kb of Some v \<Rightarrow> v | None \<Rightarrow> openocd_prefix self)
          \<and> openocd_commands (use_known_board self kb)
              = (case kb_openocd_commands kb of Some v \<Rightarrow> v | None \<Rightarrow> openocd_commands self))
       \<and> (truthy (arch self) \<and> truthy (openocd_board self)
            \<and> (\<exists>n. page_size self = PyInt n \<and> 0 < n) \<longrightarrow>
            determine_current_board env self w = (Inr (), self, w))
       \<and> (truthy (arch self) \<and> truthy (openocd_board self)
            \<and> (\<forall>n. page_size self \<noteq> PyInt n) \<longrightarrow>
            determine_current_board env self w = (Inl TypeError, self, w))"
proof -
  have look: "lookup_known_board env self = Some kb"
    using assms by (simp add: lookup_known_board_def)
  have tb: "truthy (board self)"
    using assms by simp
  have queries: "attribute_queries (snd (snd (determine_current_board env self w)))
                   = attribute_queries w"
    using look by (simp add: determine_current_board_def split: sum.splits bool.splits)
  have copy: "determine_current_board env self w = (Inr (), use_known_board self kb, w)"
    if "\<not> truthy (arch self) \<or> \<not> truthy (openocd_board self)
          \<or> (\<exists>n. page_size self = PyInt n \<and> n \<le> 0)"
  proof -
    from that have "already_set self = Inr False"
      by (auto simp: already_set_def)
    with look show ?thesis by (simp add: determine_current_board_def)
  qed
  have fields: "board (use_known_board self kb) = board self
          \<and> arch (use_known_board self kb) = kb_arch kb
          \<and> openocd_board (use_known_board self kb) = kb_openocd kb
          \<and> page_size (use_known_board self kb) = kb_page_size kb
          \<and> openocd_options (use_known_board self kb)
              = (case kb_openocd_options kb of Some v \<Rightarrow> v | None \<Rightarrow> openocd_options self)
          \<and> openocd_prefix (use_known_board self kb)
              = (case kb_openocd_prefix kb of Some v \<Rightarrow> v | None \<Rightarrow> openocd_prefix self)
          \<and> openocd_commands (use_known_board self kb)
              = (case kb_openocd_commands kb of Some v \<Rightarrow> v | None \<Rightarrow> openocd_commands self)"
    by (simp add: use_known_board_def Let_def split: option.splits)
  have kept: "determine_current_board env self w = (Inr (), self, w)"
    if "truthy (arch self) \<and> truthy (openocd_board self)
          \<and> (\<exists>n. page_size self = PyInt n \<and> 0 < n)"
  proof -
    from that tb have "already_set self = Inr True"
      by (auto simp: already_set_def)
    then show ?thesis by (simp add: determine_current_board_def)
  qed
  have raised: "determine_current_board env self w = (Inl TypeError, self, w)"
    if "truthy (arch self) \<and> truthy (openocd_board self) \<and> (\<forall>n. page_size self \<noteq> PyInt n)"
  proof -
    from that have "py_gt_zero (page_size self) = Inl TypeError"
      by (cases "page_size self") auto
    with that tb have "already_set self = Inl TypeError"
      by (simp add: already_set_def)
    then show ?thesis by (simp add: determine_current_board_def)
  qed
  from queries copy fields kept raised show ?thesis by blast
qed

theorem known_board_skips_attribute_query_witness:
  "board demo_board = PyStr ''hail''
   \<and> KNOWN_BOARDS (demo_env (Raised ValueError)) ''hail'' = Some hail_entry
   \<and> \<not> truthy (arch demo_board)
   \<and> determine_current_board (demo_env (Raised ValueError)) demo_board demo_world
       = (Inr (),
          demo_board\<lparr>arch := PyStr ''cortex-m4'', openocd_board := PyStr ''hail.cfg'',
                     page_size := PyInt 512\<rparr>,
          demo_world)
   \<and> attribute_queries (snd (snd (determine_current_board (demo_env (Raised ValueError))
                                     demo_board demo_world))) = 0
   \<and> truthy (arch preset_board) \<and> truthy (openocd_board preset_board)
   \<and> page_size preset_board = PyInt 1024
   \<and> determine_current_board (demo_env (Raised ValueError)) preset_board demo_world
       = (Inr (), preset_board, demo_world)
   \<and> page_size (preset_board\<lparr>page_size := PyStr ''512''\<rparr>) = PyStr ''512''
   \<and> determine_current_board (demo_env (Raised ValueError))
        (preset_board\<lparr>page_size := PyStr ''512''\<rparr>) demo_world
       = (Inl TypeError, preset_board\<lparr>page_size := PyStr ''512''\<rparr>, demo_world)"
proof -
  let ?env = "demo_env (Raised ValueError)"
  let ?text = "preset_board\<lparr>page_size := PyStr ''512''\<rparr>"
  have h1: "board demo_board = PyStr ''hail''" by (simp add: demo_board_def)
  have h2: "''hail'' \<noteq> []" by simp
  have h3: "KNOWN_BOARDS ?env ''hail'' = Some hail_entry" by (simp add: demo_env_def)
  have h4: "\<not> truthy (arch demo_board)" by (simp add: demo_board_def)
  have u: "use_known_board demo_board hail_entry
             = demo_board\<lparr>arch := PyStr ''cortex-m4'', openocd_board := PyStr ''hail.cfg'',
                          page_size := PyInt 512\<rparr>"
    by (simp add: use_known_board_def hail_entry_def)
  from known_board_skips_attribute_query [OF h1 h2 h3, of demo_world] h4
  have a: "determine_current_board ?env demo_board demo_world
             = (Inr (), use_known_board demo_board hail_entry, demo_world)"
          "attribute_queries (snd (snd (determine_current_board ?env demo_board demo_world)))
             = attribute_queries demo_world"
    by blast+
  have p1: "board preset_board = PyStr ''hail''"
    by (simp add: preset_board_def demo_board_def)
  have p4: "truthy (arch preset_board)" "truthy (openocd_board preset_board)"
           "page_size preset_board = PyInt 1024"
    by (simp_all add: preset_board_def)
  from known_board_skips_attribute_query [OF p1 h2 h3, of demo_world] p4
  have b: "determine_current_board ?env preset_board demo_world = (Inr (), preset_board, demo_world)"
    by simp
  have t1: "board ?text = PyStr ''hail''"
    by (simp add: preset_board_def demo_board_def)
  have t4: "truthy (arch ?text)" "truthy (openocd_board ?text)" "page_size ?text = PyStr ''512''"
    by (simp_all add: preset_board_def)
  from known_board_skips_attribute_query [OF t1 h2 h3, of demo_world] t4
  have c: "determine_current_board ?env ?text demo_world = (Inl TypeError, ?text, demo_world)"
    by simp
  from a b c h1 h3 h4 p4 t4(3) show ?thesis
    unfolding u by (simp add: demo_world_def)
qed

text \<open>
  The claim without the first test fails: with board \<^verbatim>\<open>hail\<close> in the catalog and every
  field already configured, the resolver returns at once, and the architecture and the
  page size are still the caller's, not the catalog's.
\<close>

theorem known_board_copy_counterexample:
  "board preset_board = PyStr ''hail''
   \<and> KNOWN_BOARDS (demo_env (Raised ValueError)) ''hail'' = Some hail_entry
   \<and> determine_current_board (demo_env (Raised ValueError)) preset_board demo_world
       = (Inr (), preset_board, demo_world)
   \<and> arch preset_board \<noteq> kb_arch hail_entry
   \<and> openocd_board preset_board \<noteq> kb_openocd hail_entry
   \<and> page_size preset_board \<noteq> kb_page_size hail_entry"
  by (simp add: determine_current_board_def already_set_def preset_board_def demo_defs)

end
